theory Spec2Isabelle
  imports Main
begin

section \<open>Python values\<close>

text \<open>
  The configuration handed to \<^verbatim>\<open>remap_columns.py\<close> is a tree of Python values as a
  JSON or YAML loader produces it, and the cells of a table hold the same kind of values.
  A dict is an association list in insertion order; its keys are strings and pairwise
  distinct, as in any Python dict. \<open>PNaN\<close> is the float NaN, which pandas uses as the
  marker of a missing cell; other floats are not part of the model.
\<close>

datatype pyval =
    PNone
  | PNaN
  | PBool bool
  | PInt int
  | PStr string
  | PList "pyval list"
  | PDict "(string \<times> pyval) list"

type_synonym pydict = "(string \<times> pyval) list"

datatype pytype = TNoneType | TFloat | TBool | TInt | TStr | TList | TDict

text \<open>\<^verbatim>\<open>type(v)\<close>: the exact class, so that a bool is not an int.\<close>

fun py_type :: "pyval \<Rightarrow> pytype" where
  "py_type PNone = TNoneType"
| "py_type PNaN = TFloat"
| "py_type (PBool b) = TBool"
| "py_type (PInt i) = TInt"
| "py_type (PStr s) = TStr"
| "py_type (PList xs) = TList"
| "py_type (PDict d) = TDict"

text \<open>
  Every exception the module can raise. \<open>UnexpectedConditionValueFormat\<close> is
  \<^verbatim>\<open>Exception("Unexpected condition value format")\<close>. \<open>Unmodelled\<close> marks the few calls into
  pandas whose outcome depends on array broadcasting or on labels that are not strings;
  no statement below speaks about them.
\<close>

datatype error =
    KeyError pyval
  | TypeError
  | IndexError
  | AttributeError
  | UnexpectedConditionValueFormat
  | Unmodelled

text \<open>\<^verbatim>\<open>for x in v\<close>: the values a loop over \<open>v\<close> visits, or TypeError.\<close>

fun py_iter :: "pyval \<Rightarrow> error + pyval list" where
  "py_iter (PDict d) = Inr (map (\<lambda>kv. PStr (fst kv)) d)"
| "py_iter (PList xs) = Inr xs"
| "py_iter (PStr s) = Inr (map (\<lambda>c. PStr [c]) s)"
| "py_iter v = Inl TypeError"

text \<open>Indexing a sequence by an integer, negative indices counting from the end.\<close>

definition py_index :: "'a list \<Rightarrow> int \<Rightarrow> error + 'a" where
  "py_index xs i =
     (if 0 \<le> i \<and> i < int (length xs) then Inr (xs ! nat i)
      else if i < 0 \<and> - int (length xs) \<le> i then Inr (xs ! nat (int (length xs) + i))
      else Inl IndexError)"

text \<open>\<^verbatim>\<open>v[k]\<close>.\<close>

fun py_getitem :: "pyval \<Rightarrow> pyval \<Rightarrow> error + pyval" where
  "py_getitem (PDict d) (PStr k) =
     (case map_of d k of Some v \<Rightarrow> Inr v | None \<Rightarrow> Inl (KeyError (PStr k)))"
| "py_getitem (PDict d) (PList xs) = Inl TypeError"
| "py_getitem (PDict d) (PDict e) = Inl TypeError"
| "py_getitem (PDict d) k = Inl (KeyError k)"
| "py_getitem (PList xs) (PInt i) = py_index xs i"
| "py_getitem (PList xs) (PBool b) = py_index xs (if b then 1 else 0)"
| "py_getitem (PList xs) k = Inl TypeError"
| "py_getitem (PStr s) (PInt i) = map_sum id (\<lambda>c. PStr [c]) (py_index s i)"
| "py_getitem (PStr s) (PBool b) = map_sum id (\<lambda>c. PStr [c]) (py_index s (if b then 1 else 0))"
| "py_getitem v k = Inl TypeError"

definition dict_has :: "pydict \<Rightarrow> string \<Rightarrow> bool" where
  "dict_has d k = (k \<in> set (map fst d))"

section \<open>Tables\<close>

text \<open>
  A pandas DataFrame, by value: the column labels in order and the rows in order, each row
  holding one cell per column. Labels are strings and pairwise distinct; the row index is
  not modelled (every append in the module resets it).
\<close>

record dataframe =
  columns :: "string list"
  rows :: "pyval list list"

definition wf_df :: "dataframe \<Rightarrow> bool" where
  "wf_df df = (distinct (columns df) \<and> list_all (\<lambda>r. length r = length (columns df)) (rows df))"

text \<open>\<^verbatim>\<open>pd.DataFrame()\<close>\<close>

definition empty_df :: dataframe where
  "empty_df = \<lparr>columns = [], rows = []\<rparr>"

text \<open>\<^verbatim>\<open>df.empty\<close>: some axis has length zero.\<close>

definition df_empty :: "dataframe \<Rightarrow> bool" where
  "df_empty df = (columns df = [] \<or> rows df = [])"

definition cell_of :: "string list \<Rightarrow> pyval list \<Rightarrow> string \<Rightarrow> pyval" where
  "cell_of cols r c = (case map_of (zip cols r) c of Some v \<Rightarrow> v | None \<Rightarrow> PNaN)"

text \<open>
  \<^verbatim>\<open>df[c]\<close> for a label present: the column as a series. This is what pandas returns
  when the label occurs once; when a label occurs several times \<^verbatim>\<open>df[c]\<close> is a table, not
  a series, and the statements about the evaluator that read a column assume \<open>wf_df\<close>.
\<close>

definition df_col :: "dataframe \<Rightarrow> string \<Rightarrow> pyval list" where
  "df_col df c = map (\<lambda>r. cell_of (columns df) r c) (rows df)"

fun py_isna :: "pyval \<Rightarrow> bool" where
  "py_isna PNone = True"
| "py_isna PNaN = True"
| "py_isna v = False"

definition series_isna :: "pyval list \<Rightarrow> bool list" where
  "series_isna col = map py_isna col"

definition series_not :: "bool list \<Rightarrow> bool list" where
  "series_not m = map Not m"

text \<open>
  One cell compared with a scalar, as \<^verbatim>\<open>series == scalar\<close> compares each cell: a missing
  cell equals nothing, nothing equals None or NaN, bool and int compare as numbers
  (\<^verbatim>\<open>True == 1\<close>), strings compare with strings, and values of unrelated types differ.
\<close>

fun py_num :: "pyval \<Rightarrow> int option" where
  "py_num (PBool b) = Some (if b then 1 else 0)"
| "py_num (PInt i) = Some i"
| "py_num v = None"

fun py_eq :: "pyval \<Rightarrow> pyval \<Rightarrow> bool" where
  "py_eq (PStr a) (PStr b) = (a = b)"
| "py_eq x y = (case (py_num x, py_num y) of (Some i, Some j) \<Rightarrow> i = j | _ \<Rightarrow> False)"

definition series_eq :: "pyval list \<Rightarrow> pyval \<Rightarrow> bool list" where
  "series_eq col v = map (\<lambda>x. py_eq x v) col"

text \<open>\<^verbatim>\<open>df[mask]\<close>: the rows at which the boolean series holds, the columns kept.\<close>

definition df_mask :: "dataframe \<Rightarrow> bool list \<Rightarrow> dataframe" where
  "df_mask df m = df\<lparr>rows := map fst (filter snd (zip (rows df) m))\<rparr>"

text \<open>
  \<^verbatim>\<open>a.append(b, ignore_index=True)\<close>: a new table with the columns of \<open>a\<close> followed by
  the columns only \<open>b\<close> has, the rows of \<open>a\<close> followed by the rows of \<open>b\<close>, and NaN where
  a row has no value for a column.
\<close>

definition realign :: "string list \<Rightarrow> string list \<Rightarrow> pyval list \<Rightarrow> pyval list" where
  "realign old new r = map (cell_of old r) new"

definition df_append :: "dataframe \<Rightarrow> dataframe \<Rightarrow> dataframe" where
  "df_append a b =
     (let cols = columns a @ filter (\<lambda>c. c \<notin> set (columns a)) (columns b)
      in \<lparr>columns = cols,
          rows = map (realign (columns a) cols) (rows a) @ map (realign (columns b) cols) (rows b)\<rparr>)"

text \<open>\<^verbatim>\<open>df[c] = series\<close>: overwrite column \<open>c\<close>, or add it as the last column.\<close>

definition df_setcol :: "dataframe \<Rightarrow> string \<Rightarrow> pyval list \<Rightarrow> dataframe" where
  "df_setcol df c vals =
     (if c \<in> set (columns df)
      then df\<lparr>rows := map2 (\<lambda>r v. map2 (\<lambda>k x. if k = c then v else x) (columns df) r) (rows df) vals\<rparr>
      else \<lparr>columns = columns df @ [c], rows = map2 (\<lambda>r v. r @ [v]) (rows df) vals\<rparr>)"

text \<open>\<^verbatim>\<open>del df[c]\<close>\<close>

definition df_delcol :: "dataframe \<Rightarrow> string \<Rightarrow> dataframe" where
  "df_delcol df c =
     \<lparr>columns = filter (\<lambda>k. k \<noteq> c) (columns df),
      rows = map (\<lambda>r. map snd (filter (\<lambda>kx. fst kx \<noteq> c) (zip (columns df) r))) (rows df)\<rparr>"

text \<open>\<^verbatim>\<open>df.rename(columns=m, inplace=True)\<close>: labels without an entry in \<open>m\<close> stay.\<close>

definition df_rename :: "dataframe \<Rightarrow> (string \<times> string) list \<Rightarrow> dataframe" where
  "df_rename df m = df\<lparr>columns := map (\<lambda>c. case map_of m c of Some v \<Rightarrow> v | None \<Rightarrow> c) (columns df)\<rparr>"

text \<open>\<^verbatim>\<open>df.applymap(f)\<close>\<close>

definition df_applymap :: "(pyval \<Rightarrow> pyval) \<Rightarrow> dataframe \<Rightarrow> dataframe" where
  "df_applymap f df = df\<lparr>rows := map (map f) (rows df)\<rparr>"

text \<open>\<^verbatim>\<open>df.drop_duplicates()\<close>: the first occurrence of every row, in order.\<close>

fun keep_first :: "'a list \<Rightarrow> 'a list \<Rightarrow> 'a list" where
  "keep_first seen [] = []"
| "keep_first seen (x # xs) = (if x \<in> set seen then keep_first seen xs else x # keep_first (x # seen) xs)"

definition df_drop_duplicates :: "dataframe \<Rightarrow> dataframe" where
  "df_drop_duplicates df = df\<lparr>rows := keep_first [] (rows df)\<rparr>"

section \<open>valid_config\<close>

text \<open>
  \<^verbatim>\<open>
  def valid_config(config: dict) -> bool:
      if 'conditions' not in config:
          return False
      if 'mapping' not in config:
          return False
      for mapping_entry in config['mapping']:
          if type(config['mapping'][mapping_entry]) not in [str, list]:
              return False
      return True
  \<close>
\<close>

fun valid_config_loop :: "pyval \<Rightarrow> pyval list \<Rightarrow> error + bool" where
  "valid_config_loop m [] = Inr True"
| "valid_config_loop m (mapping_entry # es) =
     (case py_getitem m mapping_entry of
        Inl e \<Rightarrow> Inl e
      | Inr v \<Rightarrow> if py_type v \<notin> set [TStr, TList] then Inr False else valid_config_loop m es)"

definition valid_config :: "pydict \<Rightarrow> error + bool" where
  "valid_config config =
     (if \<not> dict_has config ''conditions'' then Inr False
      else case map_of config ''mapping'' of
        None \<Rightarrow> Inr False
      | Some m \<Rightarrow> (case py_iter m of Inl e \<Rightarrow> Inl e | Inr es \<Rightarrow> valid_config_loop m es))"

section \<open>The condition evaluator and the row filter\<close>

text \<open>
  The body of the loop of \<^verbatim>\<open>__df_filter\<close> either goes on with a narrowed table, returns
  from the function, or raises.
\<close>

datatype flow = Continue dataframe | Return dataframe | Raise error

text \<open>
  The list branch: \<^verbatim>\<open>tmp\<close> starts as an empty table and receives, for every entry of the
  list in turn, the rows of the working table that equal the entry. An entry that is
  itself a list or a dict would be compared by broadcasting, which is not modelled.
\<close>

fun filter_list :: "dataframe \<Rightarrow> string \<Rightarrow> pyval list \<Rightarrow> dataframe \<Rightarrow> error + dataframe" where
  "filter_list cur c [] tmp = Inr tmp"
| "filter_list cur c (list_entry # es) tmp =
     (if py_type list_entry \<in> set [TList, TDict] then Inl Unmodelled
      else filter_list cur c es (df_append tmp (df_mask cur (series_eq (df_col cur c) list_entry))))"

definition filter_value :: "dataframe \<Rightarrow> string \<Rightarrow> pyval \<Rightarrow> flow" where
  "filter_value cur c v =
     (if py_type v \<in> set [TStr, TInt, TNoneType] then
        (if v = PStr ''not null'' then
           Continue (df_mask cur (series_not (series_isna (df_col cur c))))
         else if v = PNone then
           Continue (df_mask cur (series_isna (df_col cur c)))
         else
           Continue (df_mask cur (series_eq (df_col cur c) v)))
      else
        (case v of
           PList vs \<Rightarrow> (case filter_list cur c vs empty_df of Inl e \<Rightarrow> Raise e | Inr tmp \<Rightarrow> Continue tmp)
         | _ \<Rightarrow> Raise UnexpectedConditionValueFormat))"

text \<open>
  One round of \<^verbatim>\<open>for condition in conditions\<close>. The membership test in the column index
  hashes the key first, so a list or a dict raises TypeError; any other key that is not a
  string is not a label.
\<close>

fun filter_step :: "pyval \<Rightarrow> dataframe \<Rightarrow> pyval \<Rightarrow> flow" where
  "filter_step conditions cur (PStr c) =
     (if c \<notin> set (columns cur) then Return empty_df
      else case py_getitem conditions (PStr c) of
        Inl e \<Rightarrow> Raise e
      | Inr v \<Rightarrow> filter_value cur c v)"
| "filter_step conditions cur (PList xs) = Raise TypeError"
| "filter_step conditions cur (PDict d) = Raise TypeError"
| "filter_step conditions cur k = Return empty_df"

fun filter_loop :: "pyval \<Rightarrow> dataframe \<Rightarrow> pyval list \<Rightarrow> flow" where
  "filter_loop conditions cur [] = Continue cur"
| "filter_loop conditions cur (k # ks) =
     (case filter_step conditions cur k of
        Continue cur' \<Rightarrow> filter_loop conditions cur' ks
      | Return d \<Rightarrow> Return d
      | Raise e \<Rightarrow> Raise e)"

text \<open>\<^verbatim>\<open>__df_filter(result, conditions)\<close>\<close>

definition df_filter_dunder :: "dataframe \<Rightarrow> pyval \<Rightarrow> error + dataframe" where
  "df_filter_dunder result conditions =
     (case py_iter conditions of
        Inl e \<Rightarrow> Inl e
      | Inr ks \<Rightarrow> (case filter_loop conditions result ks of
                    Continue d \<Rightarrow> Inr d
                  | Return d \<Rightarrow> Inr d
                  | Raise e \<Rightarrow> Inl e))"

text \<open>
  \<^verbatim>\<open>
  def df_filter(df, conditions):
      result = df.copy()
      current_cond_result = pd.DataFrame()
      if type(conditions) is str and conditions == '*':
          return result
      if type(conditions) == dict:
          current_cond_result = __df_filter(result, conditions)
      if type(conditions) == list:
          current_cond_result = pd.DataFrame()
          for condition in conditions:
              current_cond_result = current_cond_result.append(
                  __df_filter(result, condition), ignore_index=True)
      return current_cond_result
  \<close>
\<close>

fun df_filter_list :: "dataframe \<Rightarrow> pyval list \<Rightarrow> dataframe \<Rightarrow> error + dataframe" where
  "df_filter_list result [] current_cond_result = Inr current_cond_result"
| "df_filter_list result (condition # cs) current_cond_result =
     (case df_filter_dunder result condition of
        Inl e \<Rightarrow> Inl e
      | Inr d \<Rightarrow> df_filter_list result cs (df_append current_cond_result d))"

definition df_filter :: "dataframe \<Rightarrow> pyval \<Rightarrow> error + dataframe" where
  "df_filter df conditions =
     (if conditions = PStr ''*'' then Inr df
      else case conditions of
        PDict d \<Rightarrow> df_filter_dunder df conditions
      | PList cs \<Rightarrow> df_filter_list df cs empty_df
      | _ \<Rightarrow> Inr empty_df)"

section \<open>map_fields\<close>

text \<open>
  \<^verbatim>\<open>
  def map_fields(df, mapping, save_original=False):
      simple_mapping = {k: v for k, v in mapping.items() if type(v) != list}
      if save_original:
          for key in simple_mapping:
              value = simple_mapping[key]
              df[value] = df[key]
      else:
          df.rename(columns = simple_mapping, inplace=True)
      multivalue_mapping = {k: v for k, v in mapping.items() if type(v) == list}
      for key in multivalue_mapping:
          if key not in df.columns:
              continue
          values = multivalue_mapping[key]
          for value in values:
              df[value] = df[key]
          if not save_original:
              del df[key]
      return df
  \<close>
  The function changes the table it is given and returns that same object. The model
  passes the state of the object through: the result is the state of \<^verbatim>\<open>df\<close> when the call
  ends, and the exception that ended it, if one did. A destination label that is not a
  string is outside the model, and so is a source label that occurs more than once among
  the columns (after a rename onto an existing label, say): there \<^verbatim>\<open>df[key]\<close> is a table
  and the assignment does not copy a column.
\<close>

fun simple_loop :: "dataframe \<Rightarrow> pydict \<Rightarrow> dataframe \<times> error option" where
  "simple_loop df [] = (df, None)"
| "simple_loop df ((key, v) # rest) =
     (if key \<notin> set (columns df) then (df, Some (KeyError (PStr key)))
      else if 1 < count_list (columns df) key then (df, Some Unmodelled)
      else case v of
        PStr dst \<Rightarrow> simple_loop (df_setcol df dst (df_col df key)) rest
      | _ \<Rightarrow> (df, Some Unmodelled))"

fun label_of :: "pyval \<Rightarrow> string" where
  "label_of (PStr s) = s"
| "label_of v = []"

definition simple_rename :: "dataframe \<Rightarrow> pydict \<Rightarrow> dataframe \<times> error option" where
  "simple_rename df simple_mapping =
     (if list_all (\<lambda>kv. py_type (snd kv) = TStr) simple_mapping
      then (df_rename df (map (\<lambda>kv. (fst kv, label_of (snd kv))) simple_mapping), None)
      else (df, Some Unmodelled))"

fun fan_out :: "dataframe \<Rightarrow> string \<Rightarrow> pyval list \<Rightarrow> dataframe \<times> error option" where
  "fan_out df key [] = (df, None)"
| "fan_out df key (v # rest) =
     (case v of
        PStr dst \<Rightarrow> fan_out (df_setcol df dst (df_col df key)) key rest
      | _ \<Rightarrow> (df, Some Unmodelled))"

fun multivalue_loop :: "bool \<Rightarrow> dataframe \<Rightarrow> pydict \<Rightarrow> dataframe \<times> error option" where
  "multivalue_loop save_original df [] = (df, None)"
| "multivalue_loop save_original df ((key, v) # rest) =
     (if key \<notin> set (columns df) then multivalue_loop save_original df rest
      else if 1 < count_list (columns df) key then (df, Some Unmodelled)
      else case py_iter v of
        Inl e \<Rightarrow> (df, Some e)
      | Inr vs \<Rightarrow>
          (case fan_out df key vs of
             (df', Some e) \<Rightarrow> (df', Some e)
           | (df', None) \<Rightarrow>
               multivalue_loop save_original (if \<not> save_original then df_delcol df' key else df') rest))"

definition map_fields :: "dataframe \<Rightarrow> pyval \<Rightarrow> bool \<Rightarrow> dataframe \<times> error option" where
  "map_fields df mapping save_original =
     (case mapping of
        PDict items \<Rightarrow>
          (let simple_mapping = filter (\<lambda>kv. py_type (snd kv) \<noteq> TList) items in
           case (if save_original then simple_loop df simple_mapping
                 else simple_rename df simple_mapping) of
             (df1, Some e) \<Rightarrow> (df1, Some e)
           | (df1, None) \<Rightarrow>
               (let multivalue_mapping = filter (\<lambda>kv. py_type (snd kv) = TList) items in
                multivalue_loop save_original df1 multivalue_mapping))
      | _ \<Rightarrow> (df, Some AttributeError))"

section \<open>Objects and identity\<close>

text \<open>
  Whether a call changes the caller's table depends on which object each operation
  writes to. The heap holds the tables that exist, addressed by position; \<open>new_df\<close> creates
  an object. \<^verbatim>\<open>df.copy()\<close>, \<^verbatim>\<open>df[mask]\<close>, \<^verbatim>\<open>append\<close>, \<^verbatim>\<open>applymap\<close> and \<^verbatim>\<open>drop_duplicates\<close>
  return new objects; \<^verbatim>\<open>df[c] = ...\<close>, \<^verbatim>\<open>del df[c]\<close> and \<^verbatim>\<open>rename(inplace=True)\<close> write to
  the object they are called on. Temporaries that a function creates and drops are not
  kept in the heap.
\<close>

type_synonym heap = "dataframe list"

definition new_df :: "heap \<Rightarrow> dataframe \<Rightarrow> heap \<times> nat" where
  "new_df h df = (h @ [df], length h)"

text \<open>\<^verbatim>\<open>df_filter\<close> reads the table at \<open>r\<close> and returns a new object.\<close>

definition df_filter_h :: "heap \<Rightarrow> nat \<Rightarrow> pyval \<Rightarrow> heap \<times> (error + nat)" where
  "df_filter_h h r conditions =
     (case df_filter (h ! r) conditions of
        Inl e \<Rightarrow> (h, Inl e)
      | Inr d \<Rightarrow> (case new_df h d of (h', r') \<Rightarrow> (h', Inr r')))"

text \<open>\<^verbatim>\<open>map_fields\<close> writes to the object at \<open>r\<close> and returns \<open>r\<close>.\<close>

definition map_fields_h :: "heap \<Rightarrow> nat \<Rightarrow> pyval \<Rightarrow> bool \<Rightarrow> heap \<times> (error + nat)" where
  "map_fields_h h r mapping save_original =
     (case map_fields (h ! r) mapping save_original of
        (df', Some e) \<Rightarrow> (h[r := df'], Inl e)
      | (df', None) \<Rightarrow> (h[r := df'], Inr r))"

section \<open>prepare_object\<close>

text \<open>
  \<^verbatim>\<open>
  def prepare_object(df, config):
      if not valid_config(config):
          return pd.DataFrame()
      filtered = df_filter(df, config['conditions'])
      if filtered.empty:
          return filtered
      for key in config['extensions']:
          filtered[key] = config['extensions'][key]
      return map_fields(filtered, config['mapping']).applymap(str).drop_duplicates()
  \<close>
  The extension loop writes a column holding one value in every row. A value that is a
  list or a dict, or a key that is not a string, is outside the model.
\<close>

fun extensions_loop :: "pyval \<Rightarrow> dataframe \<Rightarrow> pyval list \<Rightarrow> dataframe \<times> error option" where
  "extensions_loop ext filtered [] = (filtered, None)"
| "extensions_loop ext filtered (key # ks) =
     (case py_getitem ext key of
        Inl e \<Rightarrow> (filtered, Some e)
      | Inr v \<Rightarrow>
          (case key of
             PStr k \<Rightarrow>
               if py_type v \<in> set [TList, TDict] then (filtered, Some Unmodelled)
               else extensions_loop ext
                      (df_setcol filtered k (replicate (length (rows filtered)) v)) ks
           | _ \<Rightarrow> (filtered, Some Unmodelled)))"

definition dict_get :: "pydict \<Rightarrow> string \<Rightarrow> error + pyval" where
  "dict_get d k = (case map_of d k of Some v \<Rightarrow> Inr v | None \<Rightarrow> Inl (KeyError (PStr k)))"

text \<open>The loop over \<^verbatim>\<open>config['extensions']\<close> writes to the object \<open>filtered\<close>.\<close>

definition extend_h :: "heap \<Rightarrow> nat \<Rightarrow> pyval \<Rightarrow> heap \<times> error option" where
  "extend_h h filtered ext =
     (case py_iter ext of
        Inl e \<Rightarrow> (h, Some e)
      | Inr ks \<Rightarrow> (case extensions_loop ext (h ! filtered) ks of (d, err) \<Rightarrow> (h[filtered := d], err)))"

text \<open>
  \<open>str_of\<close> is Python's \<^verbatim>\<open>str\<close> on a cell. \<open>prepare_tail\<close> is the part of the function
  after the test of \<^verbatim>\<open>filtered.empty\<close>.
\<close>

definition prepare_tail ::
  "(pyval \<Rightarrow> string) \<Rightarrow> heap \<Rightarrow> nat \<Rightarrow> pydict \<Rightarrow> heap \<times> (error + nat)" where
  "prepare_tail str_of h filtered config =
     (case dict_get config ''extensions'' of
        Inl e \<Rightarrow> (h, Inl e)
      | Inr ext \<Rightarrow>
          (case extend_h h filtered ext of
             (h2, Some e) \<Rightarrow> (h2, Inl e)
           | (h2, None) \<Rightarrow>
               (case dict_get config ''mapping'' of
                  Inl e \<Rightarrow> (h2, Inl e)
                | Inr mapping \<Rightarrow>
                    (case map_fields_h h2 filtered mapping False of
                       (h3, Inl e) \<Rightarrow> (h3, Inl e)
                     | (h3, Inr m) \<Rightarrow>
                         (case new_df h3 (df_drop_duplicates (df_applymap (\<lambda>v. PStr (str_of v)) (h3 ! m))) of
                            (h4, r4) \<Rightarrow> (h4, Inr r4))))))"

text \<open>
  The table the caller passes is the object at \<open>r\<close>; the result is the heap after the call
  and the object returned, or the exception.
\<close>

definition prepare_object_h ::
  "(pyval \<Rightarrow> string) \<Rightarrow> heap \<Rightarrow> nat \<Rightarrow> pydict \<Rightarrow> heap \<times> (error + nat)" where
  "prepare_object_h str_of h r config =
     (case valid_config config of
        Inl e \<Rightarrow> (h, Inl e)
      | Inr ok \<Rightarrow>
          if \<not> ok then (case new_df h empty_df of (h', r') \<Rightarrow> (h', Inr r'))
          else
            (case dict_get config ''conditions'' of
               Inl e \<Rightarrow> (h, Inl e)
             | Inr conditions \<Rightarrow>
                 (case df_filter_h h r conditions of
                    (h1, Inl e) \<Rightarrow> (h1, Inl e)
                  | (h1, Inr filtered) \<Rightarrow>
                      if df_empty (h1 ! filtered) then (h1, Inr filtered)
                      else prepare_tail str_of h1 filtered config)))"

text \<open>The table \<^verbatim>\<open>prepare_object\<close> returns, by value.\<close>

definition prepare_object :: "(pyval \<Rightarrow> string) \<Rightarrow> dataframe \<Rightarrow> pydict \<Rightarrow> error + dataframe" where
  "prepare_object str_of df config =
     (case prepare_object_h str_of [df] 0 config of
        (h, Inl e) \<Rightarrow> Inl e
      | (h, Inr r) \<Rightarrow> Inr (h ! r))"

section \<open>Notions used in the statements\<close>

text \<open>The rows of \<open>df\<close> whose cell in column \<open>c\<close> equals \<open>v\<close>, in table order.\<close>

definition matching :: "dataframe \<Rightarrow> string \<Rightarrow> pyval \<Rightarrow> pyval list list" where
  "matching df c v = filter (\<lambda>r. py_eq (cell_of (columns df) r c) v) (rows df)"

text \<open>
  The shapes of a condition value that the evaluator handles: a string, an int, None, or a
  list whose entries are not themselves lists or dicts.
\<close>

fun supported_spec :: "pyval \<Rightarrow> bool" where
  "supported_spec (PStr s) = True"
| "supported_spec (PInt i) = True"
| "supported_spec PNone = True"
| "supported_spec (PList vs) = list_all (\<lambda>e. py_type e \<notin> set [TList, TDict]) vs"
| "supported_spec v = False"

text \<open>
  What the specification asks of a mapping value: a string, or a list of strings. It is
  compared with what \<open>valid_config\<close> tests.
\<close>

fun spec_mapping_value_ok :: "pyval \<Rightarrow> bool" where
  "spec_mapping_value_ok (PStr s) = True"
| "spec_mapping_value_ok (PList xs) = list_all (\<lambda>x. py_type x = TStr) xs"
| "spec_mapping_value_ok v = False"


text \<open>The tables and configurations of the examples.\<close>

definition ex_a :: dataframe where
  "ex_a = \<lparr>columns = [''a''], rows = [[PInt 1]]\<rparr>"

definition ex_ab :: dataframe where
  "ex_ab = \<lparr>columns = [''a'', ''b''], rows = [[PInt 1, PInt 2], [PInt 3, PInt 4]]\<rparr>"

definition ex_config :: pydict where
  "ex_config =
     [(''conditions'', PDict [(''a'', PInt 1)]),
      (''extensions'', PDict [(''source'', PStr ''x'')]),
      (''mapping'', PDict [(''a'', PStr ''A''), (''b'', PList [PStr ''B'', PStr ''C''])])]"

section \<open>Tables: facts about masks and append\<close>

lemma mask_filter: "map fst (filter snd (zip xs (map P xs))) = filter P xs"
  by (induction xs) auto

lemma df_mask_series_eq:
  "df_mask df (series_eq (df_col df c) v) = df\<lparr>rows := matching df c v\<rparr>"
  using mask_filter [of "rows df" "\<lambda>r. py_eq (cell_of (columns df) r c) v"]
  by (simp add: df_mask_def series_eq_def df_col_def matching_def o_def)

lemma realign_same:
  assumes "distinct cols" "length r = length cols"
  shows "realign cols cols r = r"
proof (rule nth_equalityI)
  show "length (realign cols cols r) = length r" using assms by (simp add: realign_def)
next
  fix i assume "i < length (realign cols cols r)"
  then have i: "i < length cols" by (simp add: realign_def)
  with assms have "map_of (zip cols r) (cols ! i) = Some (r ! i)"
    by (simp add: map_of_zip_nth)
  with i show "realign cols cols r ! i = r ! i" by (simp add: realign_def cell_of_def)
qed

lemma map_realign_same:
  assumes "distinct cols" "list_all (\<lambda>r. length r = length cols) rs"
  shows "map (realign cols cols) rs = rs"
  using assms by (induction rs) (simp_all add: realign_same)

lemma df_append_empty_left: "wf_df b \<Longrightarrow> df_append empty_df b = b"
  by (simp add: df_append_def empty_df_def wf_df_def map_realign_same)


lemma df_append_same:
  "wf_df a \<Longrightarrow> wf_df b \<Longrightarrow> columns a = columns b \<Longrightarrow>
   df_append a b = \<lparr>columns = columns a, rows = rows a @ rows b\<rparr>"
  by (simp add: df_append_def wf_df_def map_realign_same)

lemma wf_empty_df: "wf_df empty_df"
  by (simp add: wf_df_def empty_df_def)

lemma wf_matching: "wf_df df \<Longrightarrow> wf_df (df\<lparr>rows := matching df c v\<rparr>)"
  by (auto simp: wf_df_def matching_def list_all_iff)

lemma filter_list_rows:
  assumes "wf_df cur"
  shows "list_all (\<lambda>e. py_type e \<notin> set [TList, TDict]) vs \<Longrightarrow> wf_df tmp \<Longrightarrow>
         tmp = empty_df \<or> columns tmp = columns cur \<Longrightarrow>
         filter_list cur c vs tmp =
           Inr \<lparr>columns = (if vs = [] then columns tmp else columns cur),
                rows = rows tmp @ concat (map (matching cur c) vs)\<rparr>"
proof (induction vs arbitrary: tmp)
  case Nil
  then show ?case by simp
next
  case (Cons e es)
  let ?m = "cur\<lparr>rows := matching cur c e\<rparr>"
  have wfm: "wf_df ?m" using assms by (rule wf_matching)
  have app: "df_append tmp ?m = \<lparr>columns = columns cur, rows = rows tmp @ matching cur c e\<rparr>"
  proof (cases "tmp = empty_df")
    case True
    then show ?thesis using wfm by (simp add: df_append_empty_left) (simp add: empty_df_def)
  next
    case False
    with Cons.prems have "columns tmp = columns cur" by simp
    then show ?thesis using df_append_same [OF \<open>wf_df tmp\<close> wfm] by simp
  qed
  have wfa: "wf_df (df_append tmp ?m)"
    using \<open>wf_df tmp\<close> wfm Cons.prems(3) 
    by (auto simp: app wf_df_def empty_df_def)
  have "filter_list cur c es (df_append tmp ?m) =
          Inr \<lparr>columns = (if es = [] then columns (df_append tmp ?m) else columns cur),
               rows = rows (df_append tmp ?m) @ concat (map (matching cur c) es)\<rparr>"
    using Cons.prems(1) wfa by (intro Cons.IH) (simp_all add: app)
  then show ?case using Cons.prems(1) by (simp add: df_mask_series_eq app)
qed

section \<open>The condition evaluator: facts about the loop\<close>

lemma columns_df_append:
  "columns (df_append a b) = columns a @ filter (\<lambda>c. c \<notin> set (columns a)) (columns b)"
  by (simp add: df_append_def Let_def)

lemma columns_df_mask: "columns (df_mask df m) = columns df"
  by (simp add: df_mask_def)

lemma filter_notin_self: "filter (\<lambda>c. c \<notin> set xs) xs = []"
  by (induction xs) (auto simp: filter_empty_conv)

lemma filter_list_columns:
  "list_all (\<lambda>e. py_type e \<notin> set [TList, TDict]) vs \<Longrightarrow>
   columns tmp = [] \<or> columns tmp = columns cur \<Longrightarrow>
   \<exists>w. filter_list cur c vs tmp = Inr w \<and> columns w = (if vs = [] then columns tmp else columns cur)"
proof (induction vs arbitrary: tmp)
  case Nil
  then show ?case by simp
next
  case (Cons e es)
  let ?t = "df_append tmp (df_mask cur (series_eq (df_col cur c) e))"
  have c: "columns ?t = columns cur"
    using Cons.prems(2) by (auto simp: columns_df_append columns_df_mask filter_notin_self)
  from Cons.prems(1) have "list_all (\<lambda>e. py_type e \<notin> set [TList, TDict]) es" by simp
  from Cons.IH [OF this, of ?t] c
  obtain w where "filter_list cur c es ?t = Inr w" "columns w = columns cur"
    by (auto split: if_splits)
  with Cons.prems(1) show ?case by simp
qed

lemma filter_value_supported:
  assumes "supported_spec v"
  shows "\<exists>w. filter_value cur c v = Continue w \<and> columns w = (if v = PList [] then [] else columns cur)"
proof (cases v)
  case (PList vs)
  with assms have "list_all (\<lambda>e. py_type e \<notin> set [TList, TDict]) vs" by simp
  from filter_list_columns [OF this, of empty_df cur c]
  obtain w where "filter_list cur c vs empty_df = Inr w"
    "columns w = (if vs = [] then [] else columns cur)"
    by (auto simp: empty_df_def)
  with PList show ?thesis by (simp add: filter_value_def)
qed (use assms in \<open>simp_all add: filter_value_def columns_df_mask\<close>)

lemma filter_loop_append:
  "filter_loop cs cur (ks1 @ ks2) =
     (case filter_loop cs cur ks1 of
        Continue w \<Rightarrow> filter_loop cs w ks2
      | Return d \<Rightarrow> Return d
      | Raise e \<Rightarrow> Raise e)"
  by (induction ks1 arbitrary: cur) (simp_all split: flow.splits)

lemma getitem_dict:
  "distinct (map fst items) \<Longrightarrow> (k, v) \<in> set items \<Longrightarrow> py_getitem (PDict items) (PStr k) = Inr v"
  by (simp add: map_of_is_SomeI)

lemma prefix_present:
  assumes "distinct (map fst items)"
  shows "set pre \<subseteq> set items \<Longrightarrow>
         list_all (\<lambda>kv. fst kv \<in> set (columns df) \<and> supported_spec (snd kv) \<and> snd kv \<noteq> PList []) pre \<Longrightarrow>
         columns cur = columns df \<Longrightarrow>
         \<exists>w. filter_loop (PDict items) cur (map (\<lambda>kv. PStr (fst kv)) pre) = Continue w
              \<and> columns w = columns df"
proof (induction pre arbitrary: cur)
  case Nil
  then show ?case by simp
next
  case (Cons kv pre)
  obtain k v where kv: "kv = (k, v)" by (cases kv)
  with Cons.prems have in_items: "(k, v) \<in> set items" and k: "k \<in> set (columns cur)"
    and sup: "supported_spec v" and ne: "v \<noteq> PList []" by simp_all
  from filter_value_supported [OF sup, of cur k] ne
  obtain w where w: "filter_value cur k v = Continue w" "columns w = columns cur" by auto
  have "\<exists>w'. filter_loop (PDict items) w (map (\<lambda>kv. PStr (fst kv)) pre) = Continue w'
              \<and> columns w' = columns df"
    using Cons.prems w by (intro Cons.IH) simp_all
  then show ?case
    using kv k w getitem_dict [OF assms in_items] by simp
qed


















section \<open>Objects: what a call leaves alone\<close>

lemma new_df_simp: "new_df h d = (h @ [d], length h)"
  by (simp add: new_df_def)

lemma extend_h_frame:
  "extend_h h f ext = (h', err) \<Longrightarrow> n \<le> f \<Longrightarrow> take n h' = take n h \<and> length h' = length h"
  by (auto simp: extend_h_def split: sum.splits prod.splits)

lemma map_fields_h_take:
  "map_fields_h h f m b = (h', res) \<Longrightarrow> n \<le> f \<Longrightarrow> take n h' = take n h \<and> length h' = length h"
  by (auto simp: map_fields_h_def split: prod.splits option.splits)

lemma prepare_tail_frame:
  assumes "n \<le> f" "n \<le> length h"
  shows "take n (fst (prepare_tail s h f cfg)) = take n h"
proof (cases "dict_get cfg ''extensions''")
  case (Inl e)
  then show ?thesis by (simp add: prepare_tail_def)
next
  case (Inr ext)
  obtain h2 err where e: "extend_h h f ext = (h2, err)" by (cases "extend_h h f ext")
  from extend_h_frame [OF e assms(1)] have h2: "take n h2 = take n h" "length h2 = length h" by auto
  show ?thesis
  proof (cases err)
    case (Some x)
    with Inr e h2 show ?thesis by (simp add: prepare_tail_def)
  next
    case None
    show ?thesis
    proof (cases "dict_get cfg ''mapping''")
      case (Inl x)
      with Inr e None h2 show ?thesis by (simp add: prepare_tail_def)
    next
      case m: (Inr mapping)
      obtain h3 res where mf: "map_fields_h h2 f mapping False = (h3, res)"
        by (cases "map_fields_h h2 f mapping False")
      from map_fields_h_take [OF mf assms(1)] h2
      have h3: "take n h3 = take n h" "length h3 = length h" by auto
      with assms(2) have "take n (h3 @ [d]) = take n h" for d by simp
      with Inr e None m mf h3 show ?thesis
        by (cases res) (simp_all add: prepare_tail_def new_df_simp)
    qed
  qed
qed

section \<open>valid_config on a dict\<close>

lemma valid_config_loop_dict:
  assumes "distinct (map fst items)"
  shows "set sub \<subseteq> set items \<Longrightarrow>
    valid_config_loop (PDict items) (map (\<lambda>kv. PStr (fst kv)) sub)
      = Inr (list_all (\<lambda>kv. py_type (snd kv) \<in> set [TStr, TList]) sub)"
proof (induction sub)
  case Nil
  then show ?case by simp
next
  case (Cons kv sub)
  obtain k v where kv: "kv = (k, v)" by (cases kv)
  with Cons.prems have "(k, v) \<in> set items" by simp
  with assms have "map_of items k = Some v" by (rule map_of_is_SomeI)
  with Cons kv show ?case by simp
qed

lemmas eval_defs = df_filter_def df_filter_dunder_def filter_value_def df_mask_def series_eq_def
  series_isna_def series_not_def df_col_def cell_of_def df_append_def realign_def empty_df_def
  ex_a_def ex_ab_def wf_df_def

section \<open>The row filter\<close>




section \<open>The validator\<close>

text \<open>
  C2. \<^verbatim>\<open>valid_config\<close> returns false when \<^verbatim>\<open>mapping\<close> is absent and when \<^verbatim>\<open>conditions\<close> is
  absent; when \<^verbatim>\<open>mapping\<close> is a dict it returns true exactly if \<^verbatim>\<open>conditions\<close> is present and
  the type of every mapping value is \<^verbatim>\<open>str\<close> or \<^verbatim>\<open>list\<close>. The elements of a list are not
  looked at.
\<close>

theorem valid_config_top_level_types:
  "(map_of config ''mapping'' = None \<longrightarrow> valid_config config = Inr False)
   \<and> (\<not> dict_has config ''conditions'' \<longrightarrow> valid_config config = Inr False)
   \<and> (map_of config ''mapping'' = Some (PDict items) \<and> distinct (map fst items) \<longrightarrow>
        valid_config config =
          Inr (dict_has config ''conditions''
               \<and> list_all (\<lambda>kv. py_type (snd kv) \<in> set [TStr, TList]) items))"
  using valid_config_loop_dict [of items items]
  by (simp add: valid_config_def)

text \<open>
  A config without \<^verbatim>\<open>mapping\<close>, one without \<^verbatim>\<open>conditions\<close>, and one with a rename and a
  fan-out entry.
\<close>

theorem valid_config_top_level_types_witness:
  "map_of [(''conditions'', PStr ''*'')] ''mapping'' = None
   \<and> valid_config [(''conditions'', PStr ''*'')] = Inr False
   \<and> \<not> dict_has [(''mapping'', PDict [])] ''conditions''
   \<and> valid_config [(''mapping'', PDict [])] = Inr False
   \<and> map_of ex_config ''mapping'' = Some (PDict [(''a'', PStr ''A''), (''b'', PList [PStr ''B'', PStr ''C''])])
   \<and> distinct (map fst [(''a'', PStr ''A''), (''b'', PList [PStr ''B'', PStr ''C''])])
   \<and> valid_config ex_config = Inr True"
  using valid_config_top_level_types [of "[(''conditions'', PStr ''*'')]"]
        valid_config_top_level_types [of "[(''mapping'', PDict [])]"]
        valid_config_top_level_types [of ex_config "[(''a'', PStr ''A''), (''b'', PList [PStr ''B'', PStr ''C''])]"]
  by (simp add: dict_has_def ex_config_def)

text \<open>
  C2 as stated fails: the mapping value \<^verbatim>\<open>[1]\<close> is neither a string nor a list of strings,
  and the config is accepted.
\<close>

theorem valid_config_list_elements_counterexample:
  "\<not> spec_mapping_value_ok (PList [PInt 1])
   \<and> valid_config [(''conditions'', PStr ''*''), (''mapping'', PDict [(''a'', PList [PInt 1])])] = Inr True"
  by (simp add: valid_config_def dict_has_def)

section \<open>The condition evaluator\<close>

text \<open>
  C3. On a well-formed table with column \<open>c\<close>, the condition \<^verbatim>\<open>{c: [v1, ..., vn]}\<close> with
  scalar entries yields, for every entry in the order of the list, the rows whose cell in
  \<open>c\<close> equals the entry, one group after the other. A row is in the result exactly if its
  cell equals some entry; it occurs once for every entry it equals, so a repeated entry
  repeats its rows. An empty list yields the empty table.
\<close>

theorem condition_list_concatenates:
  assumes "wf_df df" and "c \<in> set (columns df)"
      and "list_all (\<lambda>e. py_type e \<notin> set [TList, TDict]) vs"
  shows "df_filter_dunder df (PDict [(c, PList vs)]) =
           Inr \<lparr>columns = (if vs = [] then [] else columns df),
                rows = concat (map (matching df c) vs)\<rparr>
       \<and> set (concat (map (matching df c) vs)) =
           {r \<in> set (rows df). \<exists>v \<in> set vs. py_eq (cell_of (columns df) r c) v}"
proof
  show "df_filter_dunder df (PDict [(c, PList vs)]) =
           Inr \<lparr>columns = (if vs = [] then [] else columns df),
                rows = concat (map (matching df c) vs)\<rparr>"
    using assms filter_list_rows [OF assms(1) assms(3) wf_empty_df, of c]
    by (simp add: df_filter_dunder_def filter_value_def empty_df_def)
  show "set (concat (map (matching df c) vs)) =
           {r \<in> set (rows df). \<exists>v \<in> set vs. py_eq (cell_of (columns df) r c) v}"
    by (auto simp: matching_def)
qed

text \<open>
  The list \<^verbatim>\<open>[3, 1, 3]\<close> on column \<open>a\<close> of \<^verbatim>\<open>[{a:1,b:2},{a:3,b:4}]\<close>.
\<close>

theorem condition_list_concatenates_witness:
  "wf_df ex_ab \<and> ''a'' \<in> set (columns ex_ab)
   \<and> list_all (\<lambda>e. py_type e \<notin> set [TList, TDict]) [PInt 3, PInt 1, PInt 3]
   \<and> df_filter_dunder ex_ab (PDict [(''a'', PList [PInt 3, PInt 1, PInt 3])]) =
        Inr \<lparr>columns = [''a'', ''b''],
             rows = [[PInt 3, PInt 4], [PInt 1, PInt 2], [PInt 3, PInt 4]]\<rparr>"
proof -
  have h1: "wf_df ex_ab"
    by (simp add: wf_df_def ex_ab_def)
  have h2: "''a'' \<in> set (columns ex_ab)"
    by (simp add: ex_ab_def)
  have h3: "list_all (\<lambda>e. py_type e \<notin> set [TList, TDict]) [PInt 3, PInt 1, PInt 3]"
    by simp
  show ?thesis
    using h1 h2 h3 condition_list_concatenates [OF h1 h2 h3]
    by (simp add: matching_def cell_of_def ex_ab_def)
qed

text \<open>
  C3 as stated fails: with the list \<^verbatim>\<open>[1, 1]\<close> the one row of \<^verbatim>\<open>[{a:1}]\<close> comes out twice.
\<close>

theorem condition_list_duplicates_counterexample:
  "df_filter_dunder ex_a (PDict [(''a'', PList [PInt 1, PInt 1])]) =
     Inr \<lparr>columns = [''a''], rows = [[PInt 1], [PInt 1]]\<rparr>
   \<and> \<not> distinct (rows \<lparr>columns = [''a''], rows = [[PInt 1], [PInt 1]]\<rparr>)"
  by (simp add: eval_defs)

text \<open>
  C4. When the keys before \<open>c\<close> in the condition name columns of the table and have
  supported values other than the empty list, \<open>c\<close> names a column of the table, and the
  value of \<open>c\<close> is not a string, an int, None or a list, the evaluator raises
  \<^verbatim>\<open>Exception("Unexpected condition value format")\<close>, whatever keys follow, and
  \<^verbatim>\<open>df_filter\<close> passes the exception on.
\<close>

theorem unsupported_shape_raises:
  assumes "distinct (map fst (pre @ (c, v) # post))"
      and "list_all (\<lambda>kv. fst kv \<in> set (columns df) \<and> supported_spec (snd kv) \<and> snd kv \<noteq> PList []) pre"
      and "c \<in> set (columns df)"
      and "py_type v \<notin> set [TStr, TInt, TNoneType, TList]"
  shows "df_filter_dunder df (PDict (pre @ (c, v) # post)) = Inl UnexpectedConditionValueFormat
         \<and> df_filter df (PDict (pre @ (c, v) # post)) = Inl UnexpectedConditionValueFormat"
proof -
  let ?items = "pre @ (c, v) # post"
  obtain w where w: "filter_loop (PDict ?items) df (map (\<lambda>kv. PStr (fst kv)) pre) = Continue w"
      "columns w = columns df"
    using prefix_present [OF assms(1), of pre df df] assms(2) by auto
  have g: "py_getitem (PDict ?items) (PStr c) = Inr v"
    by (rule getitem_dict [OF assms(1)]) simp
  have "filter_value w c v = Raise UnexpectedConditionValueFormat"
    using assms(4) by (cases v) (simp_all add: filter_value_def)
  then have "filter_loop (PDict ?items) df (map (\<lambda>kv. PStr (fst kv)) ?items)
               = Raise UnexpectedConditionValueFormat"
    using w assms(3) g by (simp add: filter_loop_append)
  then show ?thesis by (simp add: df_filter_dunder_def df_filter_def)
qed

text \<open>
  The condition \<^verbatim>\<open>{a: 1, b: True, c: 0}\<close> on a table with the columns \<open>a\<close> and \<open>b\<close>.
\<close>

theorem unsupported_shape_raises_witness:
  "distinct (map fst ([(''a'', PInt 1)] @ (''b'', PBool True) # [(''c'', PInt 0)]))
   \<and> list_all (\<lambda>kv. fst kv \<in> set (columns ex_ab) \<and> supported_spec (snd kv) \<and> snd kv \<noteq> PList [])
        [(''a'', PInt 1)]
   \<and> ''b'' \<in> set (columns ex_ab)
   \<and> py_type (PBool True) \<notin> set [TStr, TInt, TNoneType, TList]
   \<and> df_filter_dunder ex_ab (PDict [(''a'', PInt 1), (''b'', PBool True), (''c'', PInt 0)])
        = Inl UnexpectedConditionValueFormat
   \<and> df_filter ex_ab (PDict [(''a'', PInt 1), (''b'', PBool True), (''c'', PInt 0)])
        = Inl UnexpectedConditionValueFormat"
proof -
  have h1: "distinct (map fst ([(''a'', PInt 1)] @ (''b'', PBool True) # [(''c'', PInt 0)]))"
    by simp
  have h2: "list_all (\<lambda>kv. fst kv \<in> set (columns ex_ab) \<and> supported_spec (snd kv) \<and> snd kv \<noteq> PList [])
        [(''a'', PInt 1)]"
    by (simp add: ex_ab_def)
  have h3: "''b'' \<in> set (columns ex_ab)"
    by (simp add: ex_ab_def)
  have h4: "py_type (PBool True) \<notin> set [TStr, TInt, TNoneType, TList]"
    by simp
  show ?thesis
    using h1 h2 h3 h4 unsupported_shape_raises [OF h1 h2 h3 h4] by simp
qed

text \<open>
  C4 as stated fails: a dict as the value of a key that names no column does not raise;
  the test for the column comes first and the result is the empty table.
\<close>

theorem unsupported_shape_absent_column_counterexample:
  "py_type (PDict [(''x'', PInt 1)]) \<notin> set [TStr, TInt, TNoneType, TList]
   \<and> df_filter_dunder ex_a (PDict [(''b'', PDict [(''x'', PInt 1)])]) = Inr empty_df"
  by (simp add: eval_defs)

text \<open>
  C5. On a well-formed table, for a column \<open>c\<close> of the table and a value whose type is
  \<^verbatim>\<open>str\<close> or \<^verbatim>\<open>int\<close>, other than the string \<^verbatim>\<open>"not null"\<close>, the condition \<^verbatim>\<open>{c: v}\<close> succeeds
  and keeps exactly the rows whose cell in \<open>c\<close> equals \<open>v\<close>, in table order.
\<close>

theorem scalar_condition_str_int:
  assumes "wf_df df"
      and "c \<in> set (columns df)" and "py_type v = TStr \<or> py_type v = TInt"
      and "v \<noteq> PStr ''not null''"
  shows "df_filter_dunder df (PDict [(c, v)]) = Inr (df\<lparr>rows := matching df c v\<rparr>)"
  using assms by (auto simp: df_filter_dunder_def filter_value_def df_mask_series_eq)

text \<open>
  The condition \<^verbatim>\<open>{a: 3}\<close> on \<^verbatim>\<open>[{a:1,b:2},{a:3,b:4}]\<close>.
\<close>

theorem scalar_condition_str_int_witness:
  "wf_df ex_ab
   \<and> ''a'' \<in> set (columns ex_ab) \<and> (py_type (PInt 3) = TStr \<or> py_type (PInt 3) = TInt)
   \<and> PInt 3 \<noteq> PStr ''not null''
   \<and> df_filter_dunder ex_ab (PDict [(''a'', PInt 3)]) =
        Inr \<lparr>columns = [''a'', ''b''], rows = [[PInt 3, PInt 4]]\<rparr>"
proof -
  have h0: "wf_df ex_ab"
    by (simp add: wf_df_def ex_ab_def)
  have h1: "''a'' \<in> set (columns ex_ab)"
    by (simp add: ex_ab_def)
  have h2: "py_type (PInt 3) = TStr \<or> py_type (PInt 3) = TInt"
    by simp
  have h3: "PInt 3 \<noteq> PStr ''not null''"
    by simp
  show ?thesis
    using h0 h1 h2 h3 scalar_condition_str_int [OF h0 h1 h2 h3]
    by (simp add: matching_def cell_of_def ex_ab_def)
qed

text \<open>
  C5 as stated fails for a boolean: \<^verbatim>\<open>type(True)\<close> is \<^verbatim>\<open>bool\<close>, which is none of the types
  the evaluator accepts, and the call raises.
\<close>

theorem scalar_condition_bool_counterexample:
  "''a'' \<in> set (columns ex_a)
   \<and> df_filter_dunder ex_a (PDict [(''a'', PBool True)]) = Inl UnexpectedConditionValueFormat"
  by (simp add: eval_defs)




section \<open>The field mapper\<close>

text \<open>
  C6. With \<^verbatim>\<open>save_original=True\<close>, a string-valued entry whose source column is absent
  raises KeyError and leaves the table as it was; the same entry with
  \<^verbatim>\<open>save_original=False\<close>, and a list-valued entry for the same absent source, are skipped
  without an error.
\<close>

theorem map_fields_missing_source_keyerror:
  "map_fields ex_a (PDict [(''x'', PStr ''y'')]) True = (ex_a, Some (KeyError (PStr ''x'')))
   \<and> map_fields ex_a (PDict [(''x'', PStr ''y'')]) False = (ex_a, None)
   \<and> map_fields ex_a (PDict [(''x'', PList [PStr ''y''])]) True = (ex_a, None)"
  by (simp add: map_fields_def simple_rename_def df_rename_def ex_a_def)

section \<open>Effects on the caller's table\<close>

text \<open>
  C7. \<^verbatim>\<open>df_filter\<close> and \<^verbatim>\<open>prepare_object\<close> leave every table that existed before the call
  as it was, the caller's table among them, whether they return or raise;
  \<^verbatim>\<open>valid_config\<close> takes no table. \<^verbatim>\<open>map_fields\<close> returns the object it was given.
\<close>

theorem caller_table_unchanged:
  assumes "r < length h"
  shows "take (length h) (fst (df_filter_h h r conditions)) = h
       \<and> take (length h) (fst (prepare_object_h str_of h r config)) = h
       \<and> (\<forall>r'. snd (map_fields_h h r mapping save_original) = Inr r' \<longrightarrow> r' = r)"
proof (intro conjI)
  show f: "take (length h) (fst (df_filter_h h r conditions)) = h"
    by (simp add: df_filter_h_def new_df_simp split: sum.splits)
  show "\<forall>r'. snd (map_fields_h h r mapping save_original) = Inr r' \<longrightarrow> r' = r"
    by (auto simp: map_fields_h_def split: prod.splits option.splits)
  show "take (length h) (fst (prepare_object_h str_of h r config)) = h"
  proof (cases "valid_config config")
    case (Inl e)
    then show ?thesis by (simp add: prepare_object_h_def)
  next
    case ok: (Inr ok)
    show ?thesis
    proof (cases "ok \<and> (\<exists>c. dict_get config ''conditions'' = Inr c)")
      case False
      with ok show ?thesis
        by (cases "dict_get config ''conditions''") (auto simp: prepare_object_h_def new_df_simp)
    next
      case True
      then obtain c where c: "dict_get config ''conditions'' = Inr c" and t: ok by auto
      show ?thesis
      proof (cases "df_filter (h ! r) c")
        case (Inl e)
        with ok t c show ?thesis by (simp add: prepare_object_h_def df_filter_h_def)
      next
        case (Inr d)
        have "take (length h) (fst (prepare_tail str_of (h @ [d]) (length h) config)) = take (length h) (h @ [d])"
          by (rule prepare_tail_frame) simp_all
        with ok t c Inr show ?thesis
          by (simp add: prepare_object_h_def df_filter_h_def new_df_simp)
      qed
    qed
  qed
qed

text \<open>
  A heap holding one table, filtered, normalized and mapped.
\<close>

theorem caller_table_unchanged_witness:
  "0 < length [ex_ab]
   \<and> take (length [ex_ab]) (fst (df_filter_h [ex_ab] 0 (PDict [(''a'', PInt 1)]))) = [ex_ab]
   \<and> take (length [ex_ab]) (fst (prepare_object_h (\<lambda>v. ''s'') [ex_ab] 0 ex_config)) = [ex_ab]
   \<and> snd (map_fields_h [ex_ab] 0 (PDict [(''a'', PStr ''A'')]) False) = Inr 0"
proof -
  have h: "0 < length [ex_ab]"
    by simp
  have m: "snd (map_fields_h [ex_ab] 0 (PDict [(''a'', PStr ''A'')]) False) = Inr 0"
    by (simp add: map_fields_h_def map_fields_def simple_rename_def)
  show ?thesis
    using h m caller_table_unchanged [OF h, of "PDict [(''a'', PInt 1)]" "\<lambda>v. ''s''" ex_config
        "PDict [(''a'', PStr ''A'')]" False]
    by simp
qed

text \<open>
  C7 as stated fails for \<^verbatim>\<open>map_fields\<close>: after the call the caller's table has the column
  \<open>b\<close> in place of \<open>a\<close>.
\<close>

theorem map_fields_mutates_counterexample:
  "fst (map_fields_h [ex_a] 0 (PDict [(''a'', PStr ''b'')]) False) ! 0
     = \<lparr>columns = [''b''], rows = [[PInt 1]]\<rparr>
   \<and> snd (map_fields_h [ex_a] 0 (PDict [(''a'', PStr ''b'')]) False) = Inr 0
   \<and> [ex_a] ! 0 \<noteq> \<lparr>columns = [''b''], rows = [[PInt 1]]\<rparr>"
  by (simp add: map_fields_h_def map_fields_def simple_rename_def df_rename_def ex_a_def)

section \<open>The normalizer\<close>

text \<open>
  C9. When \<^verbatim>\<open>valid_config\<close> returns false, \<^verbatim>\<open>prepare_object\<close> returns the empty table and
  raises nothing, whatever the input table.
\<close>

theorem prepare_object_invalid_config:
  "valid_config config = Inr False \<Longrightarrow> prepare_object str_of df config = Inr empty_df"
  by (simp add: prepare_object_def prepare_object_h_def new_df_def)

text \<open>
  A config whose mapping value is an int.
\<close>

theorem prepare_object_invalid_config_witness:
  "valid_config [(''conditions'', PStr ''*''), (''mapping'', PDict [(''a'', PInt 1)])] = Inr False
   \<and> prepare_object (\<lambda>v. ''x'') \<lparr>columns = [''a''], rows = [[PInt 1]]\<rparr>
         [(''conditions'', PStr ''*''), (''mapping'', PDict [(''a'', PInt 1)])] = Inr empty_df"
proof -
  have h: "valid_config [(''conditions'', PStr ''*''), (''mapping'', PDict [(''a'', PInt 1)])] = Inr False"
    by (simp add: valid_config_def dict_has_def)
  show ?thesis using h prepare_object_invalid_config [OF h] by simp
qed

text \<open>
  C10. When \<^verbatim>\<open>valid_config\<close> accepts the config, the config has no key \<^verbatim>\<open>extensions\<close>, and
  the row filter returns a table that is not empty, \<^verbatim>\<open>prepare_object\<close> raises
  \<^verbatim>\<open>KeyError('extensions')\<close>.
\<close>

theorem prepare_object_missing_extensions:
  assumes "valid_config config = Inr True"
      and "map_of config ''extensions'' = None"
      and "map_of config ''conditions'' = Some conditions"
      and "df_filter df conditions = Inr filtered"
      and "\<not> df_empty filtered"
  shows "prepare_object str_of df config = Inl (KeyError (PStr ''extensions''))"
  using assms
  by (simp add: prepare_object_def prepare_object_h_def new_df_def dict_get_def df_filter_h_def prepare_tail_def)

text \<open>
  The wildcard condition on a table of one row.
\<close>

theorem prepare_object_missing_extensions_witness:
  "valid_config [(''conditions'', PStr ''*''), (''mapping'', PDict [(''a'', PStr ''A'')])] = Inr True
   \<and> map_of [(''conditions'', PStr ''*''), (''mapping'', PDict [(''a'', PStr ''A'')])] ''extensions'' = None
   \<and> map_of [(''conditions'', PStr ''*''), (''mapping'', PDict [(''a'', PStr ''A'')])] ''conditions'' = Some (PStr ''*'')
   \<and> df_filter ex_a (PStr ''*'') = Inr ex_a
   \<and> \<not> df_empty ex_a
   \<and> prepare_object (\<lambda>v. ''s'') ex_a [(''conditions'', PStr ''*''), (''mapping'', PDict [(''a'', PStr ''A'')])]
        = Inl (KeyError (PStr ''extensions''))"
proof -
  let ?cfg = "[(''conditions'', PStr ''*''), (''mapping'', PDict [(''a'', PStr ''A'')])]"
  have h1: "valid_config ?cfg = Inr True"
    by (simp add: valid_config_def dict_has_def)
  have h2: "map_of ?cfg ''extensions'' = None"
    by simp
  have h3: "map_of ?cfg ''conditions'' = Some (PStr ''*'')"
    by simp
  have h4: "df_filter ex_a (PStr ''*'') = Inr ex_a"
    by (simp add: df_filter_def)
  have h5: "\<not> df_empty ex_a"
    by (simp add: df_empty_def ex_a_def)
  show ?thesis
    using h1 h2 h3 h4 h5 prepare_object_missing_extensions [OF h1 h2 h3 h4 h5, of "\<lambda>v. ''s''"]
    by simp
qed

end
